theory Spec2Isabelle
  imports Complex_Main
begin

section \<open>Camera control client (scripts/control\_client.py)\<close>

text \<open>
  The script drives a camera position towards a detected target with one PID controller
  per axis. Python floats are modelled as \<open>real\<close>, so rounding and overflow are outside
  the model. The values that are not numbers (the two infinities and NaN) are modelled
  where they decide a statement: at the saturation of the controller output, which
  only compares and negates and is therefore exact on floats. Every attribute that the script mutates is a record field, and every
  method takes the object and returns the updated one. What the script reads from its
  environment (the clock, the transform buffer, the action server) is an argument of the
  method that reads it.
\<close>

subsection \<open>Module constants\<close>

definition KP :: real where "KP = 1 / 100"
definition KI :: real where "KI = 0"
definition KD :: real where "KD = 1 / 100"

definition ERROR_THRESHOLD :: real where "ERROR_THRESHOLD = 2 / 100"
definition Z_THRESHOLD :: real where "Z_THRESHOLD = 20 / 100"
definition MOVEMENT_THRESHOLD :: real where "MOVEMENT_THRESHOLD = 1 / 100"

subsection \<open>geometry\_msgs Point\<close>

record Point =
  point_x :: real
  point_y :: real
  point_z :: real

subsection \<open>The axis controller\<close>

text \<open>
  Modelled from the spec: the class \<open>PID\<close> comes from the package simple\_pid, which is
  not part of the script. The record holds the per-axis state of section 3 of the
  specification (gains, setpoint, accumulated integral, previous error, sample period)
  and the previously computed output that section 4.1 returns on a rate-limited call.
  Before the first evaluation there is neither a previous error nor a previous output;
  both are \<open>None\<close> then, and the derivative term of the first evaluation is zero.
\<close>

record PID =
  gain_p :: real
  gain_i :: real
  gain_d :: real
  setpoint :: real
  sample_time :: real
  accumulated_integral :: real
  previous_error :: "real option"
  last_output :: "real option"

text \<open>
  Modelled from the spec: the constructor call \<open>PID(KP, KI, KD)\<close>. The setpoint starts at
  zero and the memory is empty; the sample period set here is overwritten by the camera
  controller's constructor before any use.
\<close>

definition PID_init :: "real \<Rightarrow> real \<Rightarrow> real \<Rightarrow> PID" where
  "PID_init kp ki kd =
     \<lparr>gain_p = kp, gain_i = ki, gain_d = kd, setpoint = 0, sample_time = 1 / 100,
      accumulated_integral = 0, previous_error = None, last_output = None\<rparr>"

text \<open>
  Modelled from the spec: the control law of section 4.1, evaluated when the sample period
  has elapsed. It returns the output and the controller with its memory updated.
\<close>

definition control_law :: "real \<Rightarrow> PID \<Rightarrow> real \<times> PID" where
  "control_law measurement p =
     (let error = setpoint p - measurement;
          integral = accumulated_integral p + error * sample_time p;
          derivative = (case previous_error p of
                          None \<Rightarrow> 0
                        | Some e \<Rightarrow> (error - e) / sample_time p);
          output = gain_p p * error + gain_i p * integral + gain_d p * derivative
      in (output,
          p\<lparr>accumulated_integral := integral, previous_error := Some error,
            last_output := Some output\<rparr>))"

text \<open>
  Modelled from the spec: \<open>compute(measurement)\<close> of section 4.1. The time elapsed since
  the last evaluation is read from the clock and is the argument \<open>elapsed\<close>. A call before
  the sample period has elapsed returns the previous output and leaves the state alone.
\<close>

definition compute :: "real \<Rightarrow> real \<Rightarrow> PID \<Rightarrow> real \<times> PID" where
  "compute elapsed measurement p =
     (case last_output p of
        None \<Rightarrow> control_law measurement p
      | Some out \<Rightarrow>
          if elapsed < sample_time p then (out, p) else control_law measurement p)"

subsection \<open>CameraController\<close>

record CameraController =
  position :: Point
  pid_x :: PID
  pid_y :: PID
  pid_z :: PID
  clip_val :: real

definition CameraController_init :: CameraController where
  "CameraController_init =
     \<lparr>position = \<lparr>point_x = 0, point_y = 0, point_z = 0\<rparr>,
      pid_x = (PID_init KP KI KD)\<lparr>sample_time := 333 / 10000\<rparr>,
      pid_y = (PID_init KP KI KD)\<lparr>sample_time := 333 / 10000\<rparr>,
      pid_z = (PID_init KP KI KD)\<lparr>sample_time := 333 / 10000\<rparr>,
      clip_val = 1 / 10\<rparr>"

definition set_new_goal :: "Point \<Rightarrow> CameraController \<Rightarrow> CameraController" where
  "set_new_goal target_position c =
     c\<lparr>pid_x := (pid_x c)\<lparr>setpoint := point_x target_position\<rparr>,
       pid_y := (pid_y c)\<lparr>setpoint := point_y target_position\<rparr>,
       pid_z := (pid_z c)\<lparr>setpoint := point_z target_position\<rparr>\<rparr>"

definition get_position_error :: "CameraController \<Rightarrow> real \<times> real \<times> real" where
  "get_position_error c =
     (\<bar>point_x (position c) - setpoint (pid_x c)\<bar>,
      \<bar>point_y (position c) - setpoint (pid_y c)\<bar>,
      \<bar>point_z (position c) - setpoint (pid_z c)\<bar>)"

text \<open>
  \<open>update_position\<close> in two parts. The first part is the three controller calls and the
  saturation of their outputs (lines 54 to 61): it gives, per axis, the saturated velocity
  and the controller after its call. The three calls read the clock one after the other,
  so each has its own elapsed time.
\<close>

type_synonym elapsed_times = "real \<times> real \<times> real"

text \<open>
  The saturation \<open>max(min(velocity, clip_val), -clip_val)\<close> of lines 59 to 61 on numbers.
  What the same expression does on every float value, NaN included, is
  \<open>clip_velocity\<close> below.
\<close>

definition saturate :: "real \<Rightarrow> real \<Rightarrow> real" where
  "saturate clip velocity = max (min velocity clip) (- clip)"

definition saturated_velocities ::
  "elapsed_times \<Rightarrow> CameraController \<Rightarrow> (real \<times> PID) \<times> (real \<times> PID) \<times> (real \<times> PID)" where
  "saturated_velocities dts c =
     (case dts of (dt_x, dt_y, dt_z) \<Rightarrow>
        (case compute dt_x (point_x (position c)) (pid_x c) of (velocity_x, px) \<Rightarrow>
         case compute dt_y (point_y (position c)) (pid_y c) of (velocity_y, py) \<Rightarrow>
         case compute dt_z (point_z (position c)) (pid_z c) of (velocity_z, pz) \<Rightarrow>
           ((saturate (clip_val c) velocity_x, px),
            (saturate (clip_val c) velocity_y, py),
            (saturate (clip_val c) velocity_z, pz))))"

text \<open>The second part integrates the saturated velocities into the position (lines 64 to 66).\<close>

definition update_position :: "elapsed_times \<Rightarrow> CameraController \<Rightarrow> CameraController" where
  "update_position dts c =
     (case saturated_velocities dts c of
        ((velocity_x, px), (velocity_y, py), (velocity_z, pz)) \<Rightarrow>
          c\<lparr>position :=
              \<lparr>point_x = point_x (position c) + velocity_x * sample_time px,
               point_y = point_y (position c) + velocity_y * sample_time py,
               point_z = point_z (position c) + velocity_z * sample_time pz\<rparr>,
            pid_x := px, pid_y := py, pid_z := pz\<rparr>)"

subsection \<open>The saturation on Python float values\<close>

text \<open>
  A Python float is a number, one of the two infinities, or NaN. Every comparison with
  NaN is false.
\<close>

datatype pyfloat = Num real | PosInf | NegInf | NaN

fun py_lt :: "pyfloat \<Rightarrow> pyfloat \<Rightarrow> bool" where
  "py_lt NaN b = False"
| "py_lt a NaN = False"
| "py_lt (Num a) (Num b) = (a < b)"
| "py_lt a NegInf = False"
| "py_lt NegInf b = True"
| "py_lt PosInf b = False"
| "py_lt a PosInf = True"

fun py_le :: "pyfloat \<Rightarrow> pyfloat \<Rightarrow> bool" where
  "py_le NaN b = False"
| "py_le a NaN = False"
| "py_le (Num a) (Num b) = (a \<le> b)"
| "py_le NegInf b = True"
| "py_le a PosInf = True"
| "py_le a b = False"

fun py_neg :: "pyfloat \<Rightarrow> pyfloat" where
  "py_neg (Num a) = Num (- a)"
| "py_neg PosInf = NegInf"
| "py_neg NegInf = PosInf"
| "py_neg NaN = NaN"

text \<open>
  The built-ins \<open>min(a, b)\<close> and \<open>max(a, b)\<close> start from the first argument and replace it
  by the second only if the second compares smaller (for \<open>min\<close>) or greater (for \<open>max\<close>).
\<close>

definition py_min :: "pyfloat \<Rightarrow> pyfloat \<Rightarrow> pyfloat" where
  "py_min a b = (if py_lt b a then b else a)"

definition py_max :: "pyfloat \<Rightarrow> pyfloat \<Rightarrow> pyfloat" where
  "py_max a b = (if py_lt a b then b else a)"

text \<open>
  Lines 59 to 61 for one axis: the raw controller output \<open>velocity\<close>, as the call of the
  axis controller returned it, is saturated with the clip value.
\<close>

definition clip_velocity :: "pyfloat \<Rightarrow> pyfloat \<Rightarrow> pyfloat" where
  "clip_velocity velocity clip = py_max (py_min velocity clip) (py_neg clip)"

text \<open>Whether a float value lies in the range from \<open>- clip\<close> to \<open>clip\<close>.\<close>

definition in_clip_range :: "pyfloat \<Rightarrow> pyfloat \<Rightarrow> bool" where
  "in_clip_range v clip = (py_le (py_neg clip) v \<and> py_le v clip)"

section \<open>ControllerNode\<close>

subsection \<open>Messages\<close>

record Quaternion =
  quat_x :: real
  quat_y :: real
  quat_z :: real
  quat_w :: real

record Pose =
  pose_position :: Point
  pose_orientation :: Quaternion

text \<open>
  Modelled from the spec: \<open>GoToPose.Goal()\<close> is declared in the interface package, not in
  the script. A fresh goal carries a pose at the origin with the unit quaternion.
\<close>

definition Goal_default :: Pose where
  "Goal_default =
     \<lparr>pose_position = \<lparr>point_x = 0, point_y = 0, point_z = 0\<rparr>,
      pose_orientation = \<lparr>quat_x = 0, quat_y = 0, quat_z = 0, quat_w = 1\<rparr>\<rparr>"

text \<open>A marker of the detection message; the script reads only \<open>marker.pose.position\<close>.\<close>

record Marker =
  marker_position :: Point

datatype tf_error = LookupException | ConnectivityException | ExtrapolationException

text \<open>
  What \<open>lookup_transform\<close> gives when it is asked: one of the three exceptions that the
  script catches, or a transform, which \<open>do_transform_point\<close> applies to a point.
\<close>

type_synonym tf_result = "tf_error + (Point \<Rightarrow> Point)"

subsection \<open>Observable effects\<close>

datatype log_msg =
    UpAndRunning
  | ReceivedMarkerPosition real real real
  | CouldNotTransformPoint tf_error
  | ReachedTargetPosition
  | CameraCurrentPosition real real real
  | GoalCoordinates real real real
  | GoalRejected
  | GoalAccepted
  | ResultLog bool
  | GoalSucceeded
  | GoalFailed

datatype effect =
    LogInfo log_msg
  | LogError log_msg
  | Print string
  | LookupTransform
  | CreateTimer nat real
  | CancelTimer nat
  | Publish "real list"
  | WaitForServer real
  | SendGoalAsync Pose

subsection \<open>Goal requests in flight\<close>

text \<open>
  Each \<open>send_goal_async\<close> starts a request of its own. A request holds the goal, the
  callback that the script has registered on the request's pending future (\<open>None\<close> when no
  callback is waiting) and the outcome that the callbacks have reported for it so far.
\<close>

datatype callback = GoalResponseCallback | GetResultCallback

datatype GoalOutcome = Pending | Accepted | Rejected | Succeeded | Failed

record request =
  request_goal :: Pose
  done_callback :: "callback option"
  outcome :: GoalOutcome

subsection \<open>Node state\<close>

text \<open>
  \<open>timers\<close> is the list of timers that the node has created, in order of creation, each
  with the flag whether it still fires; a timer handle is its index in that list.
  \<open>requests\<close> is the list of goal requests handed to the action client; a future is
  named by the index of its request.
\<close>

record ControllerNode =
  camera_controller :: CameraController
  camera_controller_timer :: "nat option"
  timers :: "bool list"
  requests :: "request list"
  send_goal_future :: "nat option"
  get_result_future :: "nat option"
  effects :: "effect list"

datatype error = AttributeError

definition ControllerNode_init :: ControllerNode where
  "ControllerNode_init =
     \<lparr>camera_controller = CameraController_init,
      camera_controller_timer = None,
      timers = [],
      requests = [],
      send_goal_future = None,
      get_result_future = None,
      effects = [LogInfo UpAndRunning]\<rparr>"

subsection \<open>Callbacks\<close>

definition detection_callback :: "Marker list \<Rightarrow> tf_result \<Rightarrow> ControllerNode \<Rightarrow> ControllerNode" where
  "detection_callback markers lookup n =
     (case markers of
        [] \<Rightarrow> n
      | marker # _ \<Rightarrow>
          (case lookup of
             Inl e \<Rightarrow>
               n\<lparr>effects := effects n @ [LookupTransform, LogError (CouldNotTransformPoint e)]\<rparr>
           | Inr transform \<Rightarrow>
               (let world_point = transform (marker_position marker);
                    c = set_new_goal world_point (camera_controller n);
                    t = length (timers n)
                in n\<lparr>camera_controller := c,
                     camera_controller_timer := Some t,
                     timers := timers n @ [True],
                     effects := effects n @
                       [LookupTransform,
                        LogInfo (ReceivedMarkerPosition
                                   (point_x world_point) (point_y world_point) (point_z world_point)),
                        CreateTimer t (sample_time (pid_x c))]\<rparr>)))"

text \<open>
  \<open>server_ready\<close> is what \<open>wait_for_server\<close> returns after at most one second: whether the
  action server was reachable. The script does not look at it.
\<close>

definition send_goal :: "real \<Rightarrow> real \<Rightarrow> real \<Rightarrow> bool \<Rightarrow> ControllerNode \<Rightarrow> ControllerNode" where
  "send_goal x y z server_ready n =
     (let goal_msg =
            Goal_default\<lparr>pose_position :=
                           (pose_position Goal_default)\<lparr>point_x := x, point_y := y, point_z := z\<rparr>,
                         pose_orientation := (pose_orientation Goal_default)\<lparr>quat_w := 1\<rparr>\<rparr>;
          i = length (requests n)
      in n\<lparr>requests := requests n @
              [\<lparr>request_goal = goal_msg, done_callback = Some GoalResponseCallback,
                outcome = Pending\<rparr>],
           send_goal_future := Some i,
           effects := effects n @
             [Print ''Waiting for server'', WaitForServer 1, Print ''Sending goal'',
              SendGoalAsync goal_msg]\<rparr>)"

definition control_loop :: "elapsed_times \<Rightarrow> bool \<Rightarrow> ControllerNode \<Rightarrow> error + ControllerNode" where
  "control_loop dts server_ready n =
     (case get_position_error (camera_controller n) of (err_x, err_y, err_z) \<Rightarrow>
        if \<bar>err_x\<bar> < ERROR_THRESHOLD \<and> \<bar>err_y\<bar> < ERROR_THRESHOLD \<and> \<bar>err_z\<bar> < Z_THRESHOLD
        then (case camera_controller_timer n of
                None \<Rightarrow> Inl AttributeError
              | Some t \<Rightarrow>
                  Inr (n\<lparr>timers := (timers n)[t := False],
                         effects := effects n @ [CancelTimer t, LogInfo ReachedTargetPosition]\<rparr>))
        else
          (let c = update_position dts (camera_controller n);
               goal_x = point_x (position c);
               goal_y = point_y (position c);
               goal_z = point_z (position c)
           in Inr (send_goal goal_x goal_y goal_z server_ready
                     (n\<lparr>camera_controller := c,
                        effects := effects n @
                          [LogInfo (CameraCurrentPosition goal_x goal_y goal_z),
                           LogInfo (GoalCoordinates goal_x goal_y goal_z),
                           Publish [goal_x, goal_y, goal_z]]\<rparr>))))"

text \<open>
  The two callbacks of the goal protocol run for the request \<open>i\<close> whose future has
  completed; \<open>accepted\<close> and \<open>success\<close> are what the action server answered.
\<close>

definition goal_response_callback :: "nat \<Rightarrow> bool \<Rightarrow> ControllerNode \<Rightarrow> ControllerNode" where
  "goal_response_callback i accepted n =
     (if \<not> accepted
      then n\<lparr>requests := (requests n)[i := (requests n ! i)\<lparr>outcome := Rejected\<rparr>],
             effects := effects n @ [LogInfo GoalRejected]\<rparr>
      else n\<lparr>requests := (requests n)[i := (requests n ! i)
                            \<lparr>done_callback := Some GetResultCallback, outcome := Accepted\<rparr>],
             get_result_future := Some i,
             effects := effects n @ [LogInfo GoalAccepted]\<rparr>)"

definition get_result_callback :: "nat \<Rightarrow> bool \<Rightarrow> ControllerNode \<Rightarrow> ControllerNode" where
  "get_result_callback i success n =
     n\<lparr>requests := (requests n)[i := (requests n ! i)
                      \<lparr>outcome := (if success then Succeeded else Failed)\<rparr>],
       effects := effects n @
         [LogInfo (ResultLog success), LogInfo (if success then GoalSucceeded else GoalFailed)]\<rparr>"

subsection \<open>The event loop\<close>

text \<open>
  The node is spun by a single-threaded executor (section 5 of the specification): one
  callback runs at a time, for a detection message, for a timer that fires, or for an
  answer of the action server to a request. A timer that has been cancelled does not
  fire. An answer runs the callback registered on the future it completes, once; an
  answer for which no callback is registered runs nothing.
\<close>

datatype server_msg = GoalResponse bool | GoalResult bool

datatype event =
    Detection "Marker list" tf_result
  | TimerFired nat elapsed_times bool
  | ServerMessage nat server_msg

definition deliver :: "nat \<Rightarrow> server_msg \<Rightarrow> ControllerNode \<Rightarrow> ControllerNode" where
  "deliver i msg n =
     (if i < length (requests n)
      then (let fired = n\<lparr>requests := (requests n)[i := (requests n ! i)\<lparr>done_callback := None\<rparr>]\<rparr>
            in case (done_callback (requests n ! i), msg) of
                 (Some GoalResponseCallback, GoalResponse accepted) \<Rightarrow>
                   goal_response_callback i accepted fired
               | (Some GetResultCallback, GoalResult success) \<Rightarrow>
                   get_result_callback i success fired
               | _ \<Rightarrow> n)
      else n)"

fun node_step :: "event \<Rightarrow> ControllerNode \<Rightarrow> error + ControllerNode" where
  "node_step (Detection markers lookup) n = Inr (detection_callback markers lookup n)"
| "node_step (TimerFired t dts server_ready) n =
     (if t < length (timers n) \<and> timers n ! t then control_loop dts server_ready n else Inr n)"
| "node_step (ServerMessage i msg) n = Inr (deliver i msg n)"

fun run :: "event list \<Rightarrow> ControllerNode \<Rightarrow> error + ControllerNode" where
  "run [] n = Inr n"
| "run (e # es) n = (case node_step e n of Inl err \<Rightarrow> Inl err | Inr n' \<Rightarrow> run es n')"

definition active_timers :: "ControllerNode \<Rightarrow> nat" where
  "active_timers n = length (filter (\<lambda>b. b) (timers n))"

subsection \<open>Observations used in the statements\<close>

text \<open>The effects that one run of \<open>control_loop\<close> adds; none when it raises.\<close>

definition tick_effects :: "elapsed_times \<Rightarrow> bool \<Rightarrow> ControllerNode \<Rightarrow> effect list" where
  "tick_effects dts server_ready n =
     (case control_loop dts server_ready n of
        Inl err \<Rightarrow> []
      | Inr n' \<Rightarrow> drop (length (effects n)) (effects n'))"

text \<open>
  How far a request has come: a pending request has had no answer, an accepted one has
  had the first answer, and the other three outcomes end the request.
\<close>

fun stage :: "GoalOutcome \<Rightarrow> nat" where
  "stage Pending = 0"
| "stage Accepted = 1"
| "stage Rejected = 2"
| "stage Succeeded = 2"
| "stage Failed = 2"

text \<open>The callback that waits on a request, as its outcome determines it.\<close>

fun waiting_callback :: "GoalOutcome \<Rightarrow> callback option" where
  "waiting_callback Pending = Some GoalResponseCallback"
| "waiting_callback Accepted = Some GetResultCallback"
| "waiting_callback Rejected = None"
| "waiting_callback Succeeded = None"
| "waiting_callback Failed = None"

definition request_ok :: "request \<Rightarrow> bool" where
  "request_ok r = (done_callback r = waiting_callback (outcome r))"

section \<open>Properties of the camera controller\<close>

lemma saturate_bounds: "0 \<le> clip \<Longrightarrow> - clip \<le> saturate clip v \<and> saturate clip v \<le> clip"
  by (simp add: saturate_def)

lemma compute_keeps_configuration:
  "compute dt m p = (out, p') \<Longrightarrow>
     sample_time p' = sample_time p \<and> setpoint p' = setpoint p \<and>
     gain_p p' = gain_p p \<and> gain_i p' = gain_i p \<and> gain_d p' = gain_d p"
  by (auto simp: compute_def control_law_def Let_def split: option.splits if_splits)

lemmas ctrl_defs = CameraController_init_def PID_init_def KP_def KI_def KD_def set_new_goal_def
  saturated_velocities_def compute_def control_law_def saturate_def update_position_def Let_def

lemma clip_velocity_Num:
  "clip_velocity (Num v) (Num clip) = Num (saturate clip v)"
  by (simp add: clip_velocity_def py_min_def py_max_def saturate_def min_def max_def)

lemma clip_velocity_PosInf: "0 \<le> clip \<Longrightarrow> clip_velocity PosInf (Num clip) = Num clip"
  by (simp add: clip_velocity_def py_min_def py_max_def)

lemma clip_velocity_NegInf: "0 \<le> clip \<Longrightarrow> clip_velocity NegInf (Num clip) = Num (- clip)"
  by (simp add: clip_velocity_def py_min_def py_max_def)

lemma clip_velocity_in_range:
  assumes "0 \<le> clip" and "v \<noteq> NaN"
  shows "in_clip_range (clip_velocity v (Num clip)) (Num clip)"
proof (cases v)
  case (Num r)
  then show ?thesis
    using saturate_bounds [OF assms(1), of r]
    by (simp add: clip_velocity_Num in_clip_range_def)
next
  case PosInf
  then show ?thesis
    using assms(1) by (simp add: clip_velocity_PosInf in_clip_range_def)
next
  case NegInf
  then show ?thesis
    using assms(1) by (simp add: clip_velocity_NegInf in_clip_range_def)
next
  case NaN
  with assms(2) show ?thesis by simp
qed

text \<open>
  Claim C1, as amended. On every position update and on every axis whose controller
  output is not NaN, the velocity that is integrated into the position lies in the
  range from \<open>- clip_val\<close> to \<open>clip_val\<close>, whatever the gains are: an infinite output is
  cut to the bound, and on a number the saturation of the script is \<open>saturate\<close>, whose
  results are the velocities that \<open>update_position\<close> integrates. The constructor sets
  \<open>clip_val\<close> to 0.1 and nothing in the script assigns it again.
\<close>

theorem update_position_saturated:
  assumes "0 \<le> clip_val c" and "v \<noteq> NaN"
  shows "in_clip_range (clip_velocity v (Num (clip_val c))) (Num (clip_val c)) \<and>
         (\<exists>w. clip_velocity v (Num (clip_val c)) = Num w \<and> \<bar>w\<bar> \<le> clip_val c) \<and>
         clip_velocity (Num r) (Num (clip_val c)) = Num (saturate (clip_val c) r) \<and>
         (case saturated_velocities dts c of ((vx, px), (vy, py), (vz, pz)) \<Rightarrow>
           \<bar>vx\<bar> \<le> clip_val c \<and> \<bar>vy\<bar> \<le> clip_val c \<and> \<bar>vz\<bar> \<le> clip_val c \<and>
           position (update_position dts c) =
             \<lparr>point_x = point_x (position c) + vx * sample_time (pid_x c),
              point_y = point_y (position c) + vy * sample_time (pid_y c),
              point_z = point_z (position c) + vz * sample_time (pid_z c)\<rparr>)"
proof -
  obtain dt_x dt_y dt_z where dts: "dts = (dt_x, dt_y, dt_z)"
    by (cases dts) auto
  obtain ox px where cx: "compute dt_x (point_x (position c)) (pid_x c) = (ox, px)"
    by (cases "compute dt_x (point_x (position c)) (pid_x c)") auto
  obtain oy py where cy: "compute dt_y (point_y (position c)) (pid_y c) = (oy, py)"
    by (cases "compute dt_y (point_y (position c)) (pid_y c)") auto
  obtain oz pz where cz: "compute dt_z (point_z (position c)) (pid_z c) = (oz, pz)"
    by (cases "compute dt_z (point_z (position c)) (pid_z c)") auto
  have sv: "saturated_velocities dts c =
      ((saturate (clip_val c) ox, px), (saturate (clip_val c) oy, py),
       (saturate (clip_val c) oz, pz))"
    by (simp add: saturated_velocities_def dts cx cy cz)
  have bx: "\<bar>saturate (clip_val c) ox\<bar> \<le> clip_val c"
    using saturate_bounds [OF assms(1), of ox] by (simp add: abs_le_iff)
  have "by": "\<bar>saturate (clip_val c) oy\<bar> \<le> clip_val c"
    using saturate_bounds [OF assms(1), of oy] by (simp add: abs_le_iff)
  have bz: "\<bar>saturate (clip_val c) oz\<bar> \<le> clip_val c"
    using saturate_bounds [OF assms(1), of oz] by (simp add: abs_le_iff)
  have st: "sample_time px = sample_time (pid_x c)" "sample_time py = sample_time (pid_y c)"
    "sample_time pz = sample_time (pid_z c)"
    using compute_keeps_configuration [OF cx] compute_keeps_configuration [OF cy]
      compute_keeps_configuration [OF cz] by simp_all
  have applied: "(case saturated_velocities dts c of ((vx, px), (vy, py), (vz, pz)) \<Rightarrow>
           \<bar>vx\<bar> \<le> clip_val c \<and> \<bar>vy\<bar> \<le> clip_val c \<and> \<bar>vz\<bar> \<le> clip_val c \<and>
           position (update_position dts c) =
             \<lparr>point_x = point_x (position c) + vx * sample_time (pid_x c),
              point_y = point_y (position c) + vy * sample_time (pid_y c),
              point_z = point_z (position c) + vz * sample_time (pid_z c)\<rparr>)"
    using bx "by" bz by (simp add: sv update_position_def st)
  have range: "in_clip_range (clip_velocity v (Num (clip_val c))) (Num (clip_val c))"
    using clip_velocity_in_range [OF assms] .
  have number: "\<exists>w. clip_velocity v (Num (clip_val c)) = Num w \<and> \<bar>w\<bar> \<le> clip_val c"
  proof (cases v)
    case (Num r')
    then show ?thesis
      using saturate_bounds [OF assms(1), of r'] by (simp add: clip_velocity_Num abs_le_iff)
  next
    case PosInf
    then show ?thesis using assms(1) by (simp add: clip_velocity_PosInf)
  next
    case NegInf
    then show ?thesis using assms(1) by (simp add: clip_velocity_NegInf)
  next
    case NaN
    with assms(2) show ?thesis by simp
  qed
  show ?thesis
    using applied range number by (simp add: clip_velocity_Num)
qed

text \<open>
  Claim C1, as amended, on the controller with the goal (100, -100, 0): the raw outputs 1
  and -1 are cut to 0.1 and -0.1, and an infinite output is cut to 0.1.
\<close>

theorem update_position_saturated_witness:
  "0 \<le> clip_val (set_new_goal \<lparr>point_x = 100, point_y = - 100, point_z = 0\<rparr> CameraController_init) \<and>
   PosInf \<noteq> NaN \<and>
   clip_velocity PosInf (Num (1 / 10)) = Num (1 / 10) \<and>
   in_clip_range (clip_velocity PosInf (Num (1 / 10))) (Num (1 / 10)) \<and>
   clip_velocity (Num 1) (Num (1 / 10)) = Num (1 / 10) \<and>
   (case saturated_velocities (1, 1, 1)
           (set_new_goal \<lparr>point_x = 100, point_y = - 100, point_z = 0\<rparr> CameraController_init) of
      ((vx, px), (vy, py), (vz, pz)) \<Rightarrow>
        vx = 1 / 10 \<and> vy = - (1 / 10) \<and> vz = 0 \<and>
        \<bar>vx\<bar> \<le> 1 / 10 \<and> \<bar>vy\<bar> \<le> 1 / 10 \<and> \<bar>vz\<bar> \<le> 1 / 10)"
  using update_position_saturated
    [of "set_new_goal \<lparr>point_x = 100, point_y = - 100, point_z = 0\<rparr> CameraController_init"
        PosInf 1 "(1, 1, 1)"]
  by (simp add: ctrl_defs clip_velocity_def py_min_def py_max_def in_clip_range_def)

text \<open>
  Claim C1 as stated fails: it holds regardless of the raw controller output, and a raw
  output that is NaN passes the saturation unchanged, because every comparison with NaN
  is false. With the clip value 0.1 of the constructor the saturated velocity is then
  NaN, which is not in the range from -0.1 to 0.1.
\<close>

theorem saturation_nan_counterexample:
  "clip_val CameraController_init = 1 / 10 \<and>
   clip_velocity NaN (Num (clip_val CameraController_init)) = NaN \<and>
   \<not> in_clip_range (clip_velocity NaN (Num (clip_val CameraController_init)))
        (Num (clip_val CameraController_init))"
  by (simp add: CameraController_init_def clip_velocity_def py_min_def py_max_def
      in_clip_range_def)

text \<open>
  Claim C4, as amended. One position update adds to each coordinate the saturated output
  of that axis's controller times the sample period, and stores the three controllers
  as their calls leave them: a call may change the accumulated integral, the previous
  error and the last output of its controller, and changes nothing else of it. The clip
  value is unchanged.
\<close>

theorem update_position_effect:
  "update_position (dt_x, dt_y, dt_z) c =
     c\<lparr>position :=
         \<lparr>point_x = point_x (position c) +
            saturate (clip_val c) (fst (compute dt_x (point_x (position c)) (pid_x c))) *
              sample_time (pid_x c),
          point_y = point_y (position c) +
            saturate (clip_val c) (fst (compute dt_y (point_y (position c)) (pid_y c))) *
              sample_time (pid_y c),
          point_z = point_z (position c) +
            saturate (clip_val c) (fst (compute dt_z (point_z (position c)) (pid_z c))) *
              sample_time (pid_z c)\<rparr>,
       pid_x := snd (compute dt_x (point_x (position c)) (pid_x c)),
       pid_y := snd (compute dt_y (point_y (position c)) (pid_y c)),
       pid_z := snd (compute dt_z (point_z (position c)) (pid_z c))\<rparr> \<and>
   saturate (clip_val c) v = max (min v (clip_val c)) (- clip_val c) \<and>
   (\<exists>i e out. snd (compute dt m p) =
       p\<lparr>accumulated_integral := i, previous_error := e, last_output := out\<rparr>)"
proof -
  have 1: "\<exists>i e out. snd (compute dt m p) =
       p\<lparr>accumulated_integral := i, previous_error := e, last_output := out\<rparr>"
  proof (cases "snd (compute dt m p) = p")
    case True
    then have "snd (compute dt m p) = p\<lparr>accumulated_integral := accumulated_integral p,
       previous_error := previous_error p, last_output := last_output p\<rparr>" by simp
    then show ?thesis by blast
  next
    case False
    then have "snd (compute dt m p) = snd (control_law m p)"
      by (auto simp: compute_def split: option.splits if_splits)
    then show ?thesis
      by (auto simp: control_law_def Let_def)
  qed
  obtain ox px where cx: "compute dt_x (point_x (position c)) (pid_x c) = (ox, px)"
    by (cases "compute dt_x (point_x (position c)) (pid_x c)") auto
  obtain oy py where cy: "compute dt_y (point_y (position c)) (pid_y c) = (oy, py)"
    by (cases "compute dt_y (point_y (position c)) (pid_y c)") auto
  obtain oz pz where cz: "compute dt_z (point_z (position c)) (pid_z c) = (oz, pz)"
    by (cases "compute dt_z (point_z (position c)) (pid_z c)") auto
  have st: "sample_time px = sample_time (pid_x c)" "sample_time py = sample_time (pid_y c)"
    "sample_time pz = sample_time (pid_z c)"
    using compute_keeps_configuration [OF cx] compute_keeps_configuration [OF cy]
      compute_keeps_configuration [OF cz] by simp_all
  have 2: "saturate (clip_val c) v = max (min v (clip_val c)) (- clip_val c)"
    by (simp add: saturate_def)
  have 3: "update_position (dt_x, dt_y, dt_z) c =
     c\<lparr>position :=
         \<lparr>point_x = point_x (position c) + saturate (clip_val c) ox * sample_time (pid_x c),
          point_y = point_y (position c) + saturate (clip_val c) oy * sample_time (pid_y c),
          point_z = point_z (position c) + saturate (clip_val c) oz * sample_time (pid_z c)\<rparr>,
       pid_x := px, pid_y := py, pid_z := pz\<rparr>"
    by (simp add: update_position_def saturated_velocities_def cx cy cz st)
  show ?thesis
    using 1 2 3 by (simp add: cx cy cz)
qed

text \<open>
  Claim C4 as stated fails: the update does change something besides the position. On
  the freshly constructed controller with the goal (1, 0, 0), the x-axis controller has
  neither a previous error nor a previous output before the update and has both after.
\<close>

theorem update_position_counterexample:
  "update_position (1, 1, 1)
     (set_new_goal \<lparr>point_x = 1, point_y = 0, point_z = 0\<rparr> CameraController_init) \<noteq>
   (set_new_goal \<lparr>point_x = 1, point_y = 0, point_z = 0\<rparr> CameraController_init)
     \<lparr>position := position (update_position (1, 1, 1)
        (set_new_goal \<lparr>point_x = 1, point_y = 0, point_z = 0\<rparr> CameraController_init))\<rparr> \<and>
   previous_error (pid_x
     (set_new_goal \<lparr>point_x = 1, point_y = 0, point_z = 0\<rparr> CameraController_init)) = None \<and>
   previous_error (pid_x (update_position (1, 1, 1)
     (set_new_goal \<lparr>point_x = 1, point_y = 0, point_z = 0\<rparr> CameraController_init))) = Some 1 \<and>
   last_output (pid_x
     (set_new_goal \<lparr>point_x = 1, point_y = 0, point_z = 0\<rparr> CameraController_init)) = None \<and>
   last_output (pid_x (update_position (1, 1, 1)
     (set_new_goal \<lparr>point_x = 1, point_y = 0, point_z = 0\<rparr> CameraController_init))) =
     Some (1 / 100)"
  by (simp add: ctrl_defs)

text \<open>
  Claim C6. For every target, \<open>set_new_goal\<close> makes the three setpoints the coordinates
  of the target and changes nothing else: the position and the clip value are the same,
  and putting the old setpoint back into a controller gives the old controller, so its
  gains, sample period, accumulated integral and previous error are untouched. Two
  retargets in a row leave the integral as it was, and the first evaluation after a
  retarget starts from the integral and the previous error of before the retarget.
\<close>

theorem set_new_goal_frame:
  "setpoint (pid_x (set_new_goal t c)) = point_x t \<and>
   setpoint (pid_y (set_new_goal t c)) = point_y t \<and>
   setpoint (pid_z (set_new_goal t c)) = point_z t \<and>
   position (set_new_goal t c) = position c \<and>
   clip_val (set_new_goal t c) = clip_val c \<and>
   (pid_x (set_new_goal t c))\<lparr>setpoint := setpoint (pid_x c)\<rparr> = pid_x c \<and>
   (pid_y (set_new_goal t c))\<lparr>setpoint := setpoint (pid_y c)\<rparr> = pid_y c \<and>
   (pid_z (set_new_goal t c))\<lparr>setpoint := setpoint (pid_z c)\<rparr> = pid_z c \<and>
   accumulated_integral (pid_x (set_new_goal t c)) = accumulated_integral (pid_x c) \<and>
   accumulated_integral (pid_y (set_new_goal t c)) = accumulated_integral (pid_y c) \<and>
   accumulated_integral (pid_z (set_new_goal t c)) = accumulated_integral (pid_z c) \<and>
   previous_error (pid_x (set_new_goal t c)) = previous_error (pid_x c) \<and>
   previous_error (pid_y (set_new_goal t c)) = previous_error (pid_y c) \<and>
   previous_error (pid_z (set_new_goal t c)) = previous_error (pid_z c) \<and>
   accumulated_integral (pid_x (set_new_goal t' (set_new_goal t c))) =
     accumulated_integral (pid_x c) \<and>
   accumulated_integral (snd (control_law m (pid_x (set_new_goal t c)))) =
     accumulated_integral (pid_x c) + (point_x t - m) * sample_time (pid_x c) \<and>
   fst (control_law m (pid_x (set_new_goal t c))) =
     gain_p (pid_x c) * (point_x t - m) +
     gain_i (pid_x c) * (accumulated_integral (pid_x c) + (point_x t - m) * sample_time (pid_x c)) +
     gain_d (pid_x c) *
       (case previous_error (pid_x c) of
          None \<Rightarrow> 0
        | Some e \<Rightarrow> (point_x t - m - e) / sample_time (pid_x c))"
  by (simp add: set_new_goal_def control_law_def Let_def split: option.splits)

text \<open>
  Claim C7. On the freshly constructed controller (position at the origin, proportional
  gain 0.01, sample period 0.0333, clip value 0.1) with the goal (1, 0, 0), the first
  update has the x velocity min(0.01 * 1, 0.1) = 0.01 and leaves the x position at
  0.01 * 0.0333 = 0.000333, whatever the elapsed times read from the clock are. The
  integral gain is zero, and on the first evaluation there is no previous error, so
  only the proportional term contributes.
\<close>

theorem first_tick:
  "position (set_new_goal \<lparr>point_x = 1, point_y = 0, point_z = 0\<rparr> CameraController_init) =
     \<lparr>point_x = 0, point_y = 0, point_z = 0\<rparr> \<and>
   gain_p (pid_x (set_new_goal \<lparr>point_x = 1, point_y = 0, point_z = 0\<rparr> CameraController_init)) = 1 / 100 \<and>
   sample_time (pid_x (set_new_goal \<lparr>point_x = 1, point_y = 0, point_z = 0\<rparr> CameraController_init)) = 333 / 10000 \<and>
   clip_val (set_new_goal \<lparr>point_x = 1, point_y = 0, point_z = 0\<rparr> CameraController_init) = 1 / 10 \<and>
   fst (fst (saturated_velocities (dt_x, dt_y, dt_z)
       (set_new_goal \<lparr>point_x = 1, point_y = 0, point_z = 0\<rparr> CameraController_init))) =
     min (KP * 1) (1 / 10) \<and>
   min (KP * 1) (1 / 10) = 1 / 100 \<and>
   point_x (position (update_position (dt_x, dt_y, dt_z)
       (set_new_goal \<lparr>point_x = 1, point_y = 0, point_z = 0\<rparr> CameraController_init))) =
     (1 / 100) * (333 / 10000) \<and>
   (1 / 100) * (333 / 10000) = (333 / 1000000 :: real)"
  by (simp add: ctrl_defs)

section \<open>Properties of the control loop\<close>

lemmas node_defs = ControllerNode_init_def detection_callback_def control_loop_def send_goal_def
  tick_effects_def get_position_error_def ERROR_THRESHOLD_def Z_THRESHOLD_def Goal_default_def
  goal_response_callback_def get_result_callback_def deliver_def active_timers_def Let_def

lemma control_loop_converged:
  assumes "camera_controller_timer n = Some t"
    and "get_position_error (camera_controller n) = (err_x, err_y, err_z)"
    and "\<bar>err_x\<bar> < ERROR_THRESHOLD \<and> \<bar>err_y\<bar> < ERROR_THRESHOLD \<and> \<bar>err_z\<bar> < Z_THRESHOLD"
  shows "control_loop dts server_ready n =
           Inr (n\<lparr>timers := (timers n)[t := False],
                  effects := effects n @ [CancelTimer t, LogInfo ReachedTargetPosition]\<rparr>)"
  using assms by (simp add: control_loop_def)

lemma control_loop_not_converged:
  assumes "get_position_error (camera_controller n) = (err_x, err_y, err_z)"
    and "\<not> (\<bar>err_x\<bar> < ERROR_THRESHOLD \<and> \<bar>err_y\<bar> < ERROR_THRESHOLD \<and> \<bar>err_z\<bar> < Z_THRESHOLD)"
  shows "\<exists>x y z g. tick_effects dts server_ready n =
           [LogInfo (CameraCurrentPosition x y z), LogInfo (GoalCoordinates x y z),
            Publish [x, y, z], Print ''Waiting for server'', WaitForServer 1,
            Print ''Sending goal'', SendGoalAsync g]"
  using assms by (auto simp: control_loop_def tick_effects_def send_goal_def Let_def)

text \<open>
  Claim C2. A tick of the control loop reports that the target is reached exactly when
  the three errors of \<open>get_position_error\<close> satisfy |err_x| < ERROR_THRESHOLD,
  |err_y| < ERROR_THRESHOLD and |err_z| < Z_THRESHOLD, where ERROR_THRESHOLD is 0.02 and
  Z_THRESHOLD is 0.20. With the errors (0, 0, 0.15) the tick reports it; with
  (0, 0, 0.25) it does not. The tick runs on a timer, so the node holds a timer handle.
\<close>

theorem convergence_test:
  assumes "camera_controller_timer n = Some t"
    and "get_position_error (camera_controller n) = (err_x, err_y, err_z)"
  shows "(LogInfo ReachedTargetPosition \<in> set (tick_effects dts server_ready n) \<longleftrightarrow>
            \<bar>err_x\<bar> < ERROR_THRESHOLD \<and> \<bar>err_y\<bar> < ERROR_THRESHOLD \<and> \<bar>err_z\<bar> < Z_THRESHOLD) \<and>
         ERROR_THRESHOLD = 2 / 100 \<and> Z_THRESHOLD = 20 / 100 \<and>
         ((err_x, err_y, err_z) = (0, 0, 15 / 100) \<longrightarrow>
            LogInfo ReachedTargetPosition \<in> set (tick_effects dts server_ready n)) \<and>
         ((err_x, err_y, err_z) = (0, 0, 25 / 100) \<longrightarrow>
            LogInfo ReachedTargetPosition \<notin> set (tick_effects dts server_ready n))"
proof -
  let ?conv = "\<bar>err_x\<bar> < ERROR_THRESHOLD \<and> \<bar>err_y\<bar> < ERROR_THRESHOLD \<and> \<bar>err_z\<bar> < Z_THRESHOLD"
  have iff: "LogInfo ReachedTargetPosition \<in> set (tick_effects dts server_ready n) \<longleftrightarrow> ?conv"
  proof (cases ?conv)
    case True
    then show ?thesis
      using control_loop_converged [OF assms True, of dts server_ready]
      by (simp add: tick_effects_def)
  next
    case False
    then show ?thesis
      using control_loop_not_converged [OF assms(2) False, of dts server_ready]
      by auto
  qed
  show ?thesis
    unfolding iff by (auto simp: ERROR_THRESHOLD_def Z_THRESHOLD_def)
qed

text \<open>
  The two scenarios of claim C2 on the node after one detection, at depth 0.15 and at
  depth 0.25.
\<close>

theorem convergence_test_witness:
  "camera_controller_timer
     (detection_callback [\<lparr>marker_position = \<lparr>point_x = 0, point_y = 0, point_z = 15 / 100\<rparr>\<rparr>]
        (Inr (\<lambda>p. p)) ControllerNode_init) = Some 0 \<and>
   get_position_error (camera_controller
     (detection_callback [\<lparr>marker_position = \<lparr>point_x = 0, point_y = 0, point_z = 15 / 100\<rparr>\<rparr>]
        (Inr (\<lambda>p. p)) ControllerNode_init)) = (0, 0, 15 / 100) \<and>
   LogInfo ReachedTargetPosition \<in> set (tick_effects (1, 1, 1) True
     (detection_callback [\<lparr>marker_position = \<lparr>point_x = 0, point_y = 0, point_z = 15 / 100\<rparr>\<rparr>]
        (Inr (\<lambda>p. p)) ControllerNode_init)) \<and>
   camera_controller_timer
     (detection_callback [\<lparr>marker_position = \<lparr>point_x = 0, point_y = 0, point_z = 25 / 100\<rparr>\<rparr>]
        (Inr (\<lambda>p. p)) ControllerNode_init) = Some 0 \<and>
   get_position_error (camera_controller
     (detection_callback [\<lparr>marker_position = \<lparr>point_x = 0, point_y = 0, point_z = 25 / 100\<rparr>\<rparr>]
        (Inr (\<lambda>p. p)) ControllerNode_init)) = (0, 0, 25 / 100) \<and>
   LogInfo ReachedTargetPosition \<notin> set (tick_effects (1, 1, 1) True
     (detection_callback [\<lparr>marker_position = \<lparr>point_x = 0, point_y = 0, point_z = 25 / 100\<rparr>\<rparr>]
        (Inr (\<lambda>p. p)) ControllerNode_init))"
proof -
  let ?n = "\<lambda>d. detection_callback [\<lparr>marker_position = \<lparr>point_x = 0, point_y = 0, point_z = d\<rparr>\<rparr>]
        (Inr (\<lambda>p. p)) ControllerNode_init"
  have t: "camera_controller_timer (?n d) = Some 0" for d
    by (simp add: node_defs)
  have e: "get_position_error (camera_controller (?n d)) = (0, 0, \<bar>d\<bar>)" for d
    by (simp add: node_defs ctrl_defs)
  have e1: "get_position_error (camera_controller (?n (15 / 100))) = (0, 0, 15 / 100)"
    using e [of "15 / 100"] by simp
  have e2: "get_position_error (camera_controller (?n (25 / 100))) = (0, 0, 25 / 100)"
    using e [of "25 / 100"] by simp
  show ?thesis
    using convergence_test [OF t e1, of "(1, 1, 1)" True]
      convergence_test [OF t e2, of "(1, 1, 1)" True] t e1 e2
    by simp
qed

text \<open>
  Claim C3. A tick whose errors pass the convergence test cancels the timer of the
  node's handle once, logs that the target is reached and does nothing else: no
  position update, nothing published, no goal sent. The controller (position and the
  three axis controllers) and the list of requests are unchanged; only the timer flag
  and the effects differ.
\<close>

theorem converged_tick_frame:
  assumes "camera_controller_timer n = Some t"
    and "get_position_error (camera_controller n) = (err_x, err_y, err_z)"
    and "\<bar>err_x\<bar> < ERROR_THRESHOLD \<and> \<bar>err_y\<bar> < ERROR_THRESHOLD \<and> \<bar>err_z\<bar> < Z_THRESHOLD"
  shows "\<exists>n'. control_loop dts server_ready n = Inr n' \<and>
           tick_effects dts server_ready n = [CancelTimer t, LogInfo ReachedTargetPosition] \<and>
           timers n' = (timers n)[t := False] \<and>
           camera_controller n' = camera_controller n \<and>
           position (camera_controller n') = position (camera_controller n) \<and>
           pid_x (camera_controller n') = pid_x (camera_controller n) \<and>
           pid_y (camera_controller n') = pid_y (camera_controller n) \<and>
           pid_z (camera_controller n') = pid_z (camera_controller n) \<and>
           requests n' = requests n \<and>
           camera_controller_timer n' = camera_controller_timer n \<and>
           n' = n\<lparr>timers := timers n', effects := effects n'\<rparr>"
  using assms by (simp add: control_loop_def tick_effects_def)

text \<open>
  Claim C3 on the node after one detection at depth 0.15: the one timer is cancelled.
\<close>

theorem converged_tick_frame_witness:
  "camera_controller_timer
     (detection_callback [\<lparr>marker_position = \<lparr>point_x = 0, point_y = 0, point_z = 15 / 100\<rparr>\<rparr>]
        (Inr (\<lambda>p. p)) ControllerNode_init) = Some 0 \<and>
   get_position_error (camera_controller
     (detection_callback [\<lparr>marker_position = \<lparr>point_x = 0, point_y = 0, point_z = 15 / 100\<rparr>\<rparr>]
        (Inr (\<lambda>p. p)) ControllerNode_init)) = (0, 0, 15 / 100) \<and>
   \<bar>0 :: real\<bar> < ERROR_THRESHOLD \<and> \<bar>15 / 100 :: real\<bar> < Z_THRESHOLD \<and>
   tick_effects (1, 1, 1) True
     (detection_callback [\<lparr>marker_position = \<lparr>point_x = 0, point_y = 0, point_z = 15 / 100\<rparr>\<rparr>]
        (Inr (\<lambda>p. p)) ControllerNode_init) = [CancelTimer 0, LogInfo ReachedTargetPosition] \<and>
   (\<exists>n'. control_loop (1, 1, 1) True
     (detection_callback [\<lparr>marker_position = \<lparr>point_x = 0, point_y = 0, point_z = 15 / 100\<rparr>\<rparr>]
        (Inr (\<lambda>p. p)) ControllerNode_init) = Inr n' \<and> timers n' = [False])"
proof -
  let ?n = "detection_callback [\<lparr>marker_position = \<lparr>point_x = 0, point_y = 0, point_z = 15 / 100\<rparr>\<rparr>]
        (Inr (\<lambda>p. p)) ControllerNode_init"
  have t: "camera_controller_timer ?n = Some 0"
    by (simp add: node_defs)
  have e: "get_position_error (camera_controller ?n) = (0, 0, 15 / 100)"
    by (simp add: node_defs ctrl_defs)
  have c: "\<bar>0 :: real\<bar> < ERROR_THRESHOLD \<and> \<bar>0 :: real\<bar> < ERROR_THRESHOLD \<and>
           \<bar>15 / 100 :: real\<bar> < Z_THRESHOLD"
    by (simp add: ERROR_THRESHOLD_def Z_THRESHOLD_def)
  have ts: "timers ?n = [True]"
    by (simp add: node_defs)
  from converged_tick_frame [OF t e c, of "(1, 1, 1)" True]
  obtain n' where "control_loop (1, 1, 1) True ?n = Inr n'"
    and "tick_effects (1, 1, 1) True ?n = [CancelTimer 0, LogInfo ReachedTargetPosition]"
    and "timers n' = (timers ?n)[0 := False]"
    by blast
  then show ?thesis
    using t e c ts by simp
qed

text \<open>
  Claim C8. Every call of \<open>send_goal\<close> hands to the action client a goal with the given
  position and the orientation (0, 0, 0, 1), after waiting at most one second for the
  server; it does so whether or not the server was reachable, and the new request waits
  for the server's response.
\<close>

theorem send_goal_sends:
  "effects (send_goal x y z server_ready n) =
     effects n @
       [Print ''Waiting for server'', WaitForServer 1, Print ''Sending goal'',
        SendGoalAsync
          \<lparr>pose_position = \<lparr>point_x = x, point_y = y, point_z = z\<rparr>,
           pose_orientation = \<lparr>quat_x = 0, quat_y = 0, quat_z = 0, quat_w = 1\<rparr>\<rparr>] \<and>
   requests (send_goal x y z server_ready n) =
     requests n @
       [\<lparr>request_goal =
           \<lparr>pose_position = \<lparr>point_x = x, point_y = y, point_z = z\<rparr>,
            pose_orientation = \<lparr>quat_x = 0, quat_y = 0, quat_z = 0, quat_w = 1\<rparr>\<rparr>,
         done_callback = Some GoalResponseCallback, outcome = Pending\<rparr>] \<and>
   send_goal x y z False n = send_goal x y z True n"
  by (simp add: send_goal_def Goal_default_def Let_def)

text \<open>
  Claim C10. A detection message without markers leaves the node as it is: no transform
  is looked up, no setpoint is set and no timer is created.
\<close>

theorem detection_empty_unchanged:
  "detection_callback [] lookup n = n"
  by (simp add: detection_callback_def)

text \<open>
  Every detection whose point is transformed creates one more timer and cancels none.
\<close>

lemma detection_adds_timer:
  "active_timers (detection_callback (marker # markers) (Inr transform) n) = active_timers n + 1"
  by (simp add: detection_callback_def active_timers_def Let_def)

text \<open>
  Claim C5 fails on the code. After two detections in a row, both with a marker and a
  transform, two timers fire the control loop; the node's handle names only the second.
\<close>

theorem two_detections_two_timers:
  "run [Detection [\<lparr>marker_position = \<lparr>point_x = 1, point_y = 0, point_z = 0\<rparr>\<rparr>] (Inr (\<lambda>p. p)),
        Detection [\<lparr>marker_position = \<lparr>point_x = 1, point_y = 0, point_z = 0\<rparr>\<rparr>] (Inr (\<lambda>p. p))]
     ControllerNode_init =
   Inr (detection_callback [\<lparr>marker_position = \<lparr>point_x = 1, point_y = 0, point_z = 0\<rparr>\<rparr>] (Inr (\<lambda>p. p))
         (detection_callback [\<lparr>marker_position = \<lparr>point_x = 1, point_y = 0, point_z = 0\<rparr>\<rparr>] (Inr (\<lambda>p. p))
            ControllerNode_init)) \<and>
   timers (detection_callback [\<lparr>marker_position = \<lparr>point_x = 1, point_y = 0, point_z = 0\<rparr>\<rparr>] (Inr (\<lambda>p. p))
         (detection_callback [\<lparr>marker_position = \<lparr>point_x = 1, point_y = 0, point_z = 0\<rparr>\<rparr>] (Inr (\<lambda>p. p))
            ControllerNode_init)) = [True, True] \<and>
   active_timers (detection_callback [\<lparr>marker_position = \<lparr>point_x = 1, point_y = 0, point_z = 0\<rparr>\<rparr>] (Inr (\<lambda>p. p))
         (detection_callback [\<lparr>marker_position = \<lparr>point_x = 1, point_y = 0, point_z = 0\<rparr>\<rparr>] (Inr (\<lambda>p. p))
            ControllerNode_init)) = 2"
  by (simp add: node_defs Let_def)

section \<open>Properties of the goal protocol\<close>

lemma requests_detection_callback:
  "requests (detection_callback markers lookup n) = requests n"
  by (simp add: detection_callback_def Let_def split: list.splits sum.splits)

lemma requests_control_loop:
  assumes "control_loop dts server_ready n = Inr n'"
  shows "requests n' = requests n \<or>
         (\<exists>g. requests n' = requests n @
            [\<lparr>request_goal = g, done_callback = Some GoalResponseCallback, outcome = Pending\<rparr>])"
  using assms
  by (auto simp: control_loop_def send_goal_def Let_def split: prod.splits if_splits option.splits)

text \<open>What one answer of the server does to the request it is for.\<close>

lemma deliver_request:
  assumes "i < length (requests n)" and "request_ok (requests n ! i)"
  shows "length (requests (deliver i msg n)) = length (requests n) \<and>
         (\<forall>j. j \<noteq> i \<longrightarrow> requests (deliver i msg n) ! j = requests n ! j) \<and>
         request_ok (requests (deliver i msg n) ! i) \<and>
         request_goal (requests (deliver i msg n) ! i) = request_goal (requests n ! i) \<and>
         stage (outcome (requests n ! i)) \<le> stage (outcome (requests (deliver i msg n) ! i)) \<and>
         (stage (outcome (requests n ! i)) = 2 \<longrightarrow> deliver i msg n = n)"
proof (cases "outcome (requests n ! i)")
  case Pending
  with assms show ?thesis
    by (cases msg)
      (auto simp: deliver_def request_ok_def goal_response_callback_def Let_def)
next
  case Accepted
  with assms show ?thesis
    by (cases msg)
      (auto simp: deliver_def request_ok_def get_result_callback_def Let_def)
next
  case Rejected
  with assms show ?thesis
    by (simp add: deliver_def request_ok_def Let_def)
next
  case Succeeded
  with assms show ?thesis
    by (simp add: deliver_def request_ok_def Let_def)
next
  case Failed
  with assms show ?thesis
    by (simp add: deliver_def request_ok_def Let_def)
qed

lemma deliver_out_of_range: "\<not> i < length (requests n) \<Longrightarrow> deliver i msg n = n"
  by (simp add: deliver_def)

lemma node_step_requests_ok:
  assumes "node_step e n = Inr n'" and "list_all request_ok (requests n)"
  shows "list_all request_ok (requests n')"
proof (cases e)
  case (Detection markers lookup)
  with assms show ?thesis by (auto simp: requests_detection_callback)
next
  case (TimerFired t dts server_ready)
  show ?thesis
  proof (cases "t < length (timers n) \<and> timers n ! t")
    case True
    with assms TimerFired have "control_loop dts server_ready n = Inr n'" by simp
    from requests_control_loop [OF this] assms(2) show ?thesis
      by (auto simp: request_ok_def)
  next
    case False
    with assms TimerFired show ?thesis by auto
  qed
next
  case (ServerMessage i msg)
  with assms have n': "n' = deliver i msg n" by simp
  show ?thesis
  proof (cases "i < length (requests n)")
    case True
    with assms(2) have ok: "request_ok (requests n ! i)"
      by (simp add: list_all_length)
    from deliver_request [OF True ok, of msg] assms(2) show ?thesis
      unfolding n' list_all_length by metis
  next
    case False
    then show ?thesis using assms(2) by (simp add: n' deliver_out_of_range)
  qed
qed

lemma run_requests_ok:
  "run es n = Inr n' \<Longrightarrow> list_all request_ok (requests n) \<Longrightarrow> list_all request_ok (requests n')"
proof (induction es arbitrary: n)
  case Nil
  then show ?case by simp
next
  case (Cons e es)
  then obtain m where m: "node_step e n = Inr m" and r: "run es m = Inr n'"
    by (auto split: sum.splits)
  from node_step_requests_ok [OF m Cons.prems(2)] Cons.IH [OF r] show ?case by blast
qed

lemma reachable_requests_ok:
  "run es ControllerNode_init = Inr n \<Longrightarrow> list_all request_ok (requests n)"
  using run_requests_ok [of es ControllerNode_init n] by (simp add: ControllerNode_init_def)

lemma node_step_request:
  assumes "node_step e n = Inr n'" and "i < length (requests n)"
    and "request_ok (requests n ! i)"
  shows "i < length (requests n') \<and>
         request_goal (requests n' ! i) = request_goal (requests n ! i) \<and>
         stage (outcome (requests n ! i)) \<le> stage (outcome (requests n' ! i)) \<and>
         (stage (outcome (requests n ! i)) = 2 \<longrightarrow> requests n' ! i = requests n ! i)"
proof (cases e)
  case (Detection markers lookup)
  with assms show ?thesis by (auto simp: requests_detection_callback)
next
  case (TimerFired t dts server_ready)
  show ?thesis
  proof (cases "t < length (timers n) \<and> timers n ! t")
    case True
    with assms TimerFired have "control_loop dts server_ready n = Inr n'" by simp
    from requests_control_loop [OF this] assms(2) show ?thesis
      by (auto simp: nth_append)
  next
    case False
    with assms TimerFired show ?thesis by auto
  qed
next
  case (ServerMessage j msg)
  with assms have n': "n' = deliver j msg n" by simp
  show ?thesis
  proof (cases "j = i")
    case True
    from deliver_request [OF assms(2,3), of msg] assms(2) show ?thesis
      unfolding n' True by auto
  next
    case False
    show ?thesis
    proof (cases "j < length (requests n)")
      case True
      have len: "length (requests (deliver j msg n)) = length (requests n)"
        by (auto simp: deliver_def goal_response_callback_def get_result_callback_def Let_def
            split: option.splits callback.splits server_msg.splits)
      have same: "requests (deliver j msg n) ! i = requests n ! i"
        using False
        by (auto simp: deliver_def goal_response_callback_def get_result_callback_def Let_def
            split: option.splits callback.splits server_msg.splits)
      show ?thesis using len same assms(2) by (simp add: n')
    next
      case False
      then show ?thesis using assms(2) by (simp add: n' deliver_out_of_range)
    qed
  qed
qed

text \<open>
  Claim C9. In every state that the node reaches from its start, and for every request
  in flight, whatever happens next: a rejected request has no callback waiting and stays
  as it is; a succeeded or failed request has no callback waiting and stays as it is;
  and no request falls back to an earlier stage. The goal of a request never changes.
\<close>

theorem dispatcher_monotonic:
  assumes "run es ControllerNode_init = Inr n"
    and "i < length (requests n)"
    and "node_step e n = Inr n'"
  shows "i < length (requests n') \<and>
         (outcome (requests n ! i) = Rejected \<longrightarrow>
            done_callback (requests n ! i) = None \<and> requests n' ! i = requests n ! i) \<and>
         (outcome (requests n ! i) = Succeeded \<or> outcome (requests n ! i) = Failed \<longrightarrow>
            done_callback (requests n ! i) = None \<and> requests n' ! i = requests n ! i) \<and>
         stage (outcome (requests n ! i)) \<le> stage (outcome (requests n' ! i)) \<and>
         request_goal (requests n' ! i) = request_goal (requests n ! i)"
proof -
  have ok: "request_ok (requests n ! i)"
    using reachable_requests_ok [OF assms(1)] assms(2) by (simp add: list_all_length)
  from node_step_request [OF assms(3,2) ok] ok show ?thesis
    by (auto simp: request_ok_def)
qed

text \<open>
  Claim C9 on two runs: a goal that the server rejects and then receives a result
  message, and a goal that succeeds and then receives a second response.
\<close>

theorem dispatcher_monotonic_witness:
  "(\<exists>n n'.
      run [Detection [\<lparr>marker_position = \<lparr>point_x = 1, point_y = 0, point_z = 0\<rparr>\<rparr>] (Inr (\<lambda>p. p)),
           TimerFired 0 (1, 1, 1) True,
           ServerMessage 0 (GoalResponse False)] ControllerNode_init = Inr n \<and>
      0 < length (requests n) \<and>
      node_step (ServerMessage 0 (GoalResult True)) n = Inr n' \<and>
      outcome (requests n ! 0) = Rejected \<and>
      done_callback (requests n ! 0) = None \<and>
      requests n' ! 0 = requests n ! 0) \<and>
   (\<exists>n n'.
      run [Detection [\<lparr>marker_position = \<lparr>point_x = 1, point_y = 0, point_z = 0\<rparr>\<rparr>] (Inr (\<lambda>p. p)),
           TimerFired 0 (1, 1, 1) True,
           ServerMessage 0 (GoalResponse True),
           ServerMessage 0 (GoalResult True)] ControllerNode_init = Inr n \<and>
      0 < length (requests n) \<and>
      node_step (ServerMessage 0 (GoalResponse False)) n = Inr n' \<and>
      outcome (requests n ! 0) = Succeeded \<and>
      done_callback (requests n ! 0) = None \<and>
      requests n' ! 0 = requests n ! 0)"
proof -
  let ?d = "Detection [\<lparr>marker_position = \<lparr>point_x = 1, point_y = 0, point_z = 0\<rparr>\<rparr>] (Inr (\<lambda>p. p))"
  let ?es1 = "[?d, TimerFired 0 (1, 1, 1) True, ServerMessage 0 (GoalResponse False)]"
  let ?es2 = "[?d, TimerFired 0 (1, 1, 1) True, ServerMessage 0 (GoalResponse True),
               ServerMessage 0 (GoalResult True)]"
  obtain n1 where r1: "run ?es1 ControllerNode_init = Inr n1"
    and l1: "0 < length (requests n1)" and o1: "outcome (requests n1 ! 0) = Rejected"
    by (simp add: node_defs ctrl_defs)
  obtain n1' where s1: "node_step (ServerMessage 0 (GoalResult True)) n1 = Inr n1'"
    by simp
  obtain n2 where r2: "run ?es2 ControllerNode_init = Inr n2"
    and l2: "0 < length (requests n2)" and o2: "outcome (requests n2 ! 0) = Succeeded"
    by (simp add: node_defs ctrl_defs)
  obtain n2' where s2: "node_step (ServerMessage 0 (GoalResponse False)) n2 = Inr n2'"
    by simp
  from dispatcher_monotonic [OF r1 l1 s1] o1
  have c1: "done_callback (requests n1 ! 0) = None \<and> requests n1' ! 0 = requests n1 ! 0"
    by simp
  from dispatcher_monotonic [OF r2 l2 s2] o2
  have c2: "done_callback (requests n2 ! 0) = None \<and> requests n2' ! 0 = requests n2 ! 0"
    by simp
  show ?thesis
    using r1 l1 s1 o1 c1 r2 l2 s2 o2 c2 by blast
qed

end
